theory Spec2Isabelle
  imports Complex_Main "HOL-Library.AList"
begin

section \<open>Text\<close>

text \<open>
  A Python \<open>str\<close> is a sequence of Unicode code points, so a text is a list of code
  points. \<open>lit\<close> writes an ASCII literal as such a list.
\<close>

type_synonym str = "nat list"

definition lit :: "string \<Rightarrow> str" where
  "lit s = map of_char s"

text \<open>
  The code points for which \<open>str.isspace\<close> holds. \<open>str.strip\<close>, \<open>str.split\<close> and the
  class \<open>\s\<close> of a \<open>str\<close> pattern all use this one set.
\<close>

definition is_space :: "nat \<Rightarrow> bool" where
  "is_space c \<longleftrightarrow>
     (9 \<le> c \<and> c \<le> 13) \<or> (28 \<le> c \<and> c \<le> 32) \<or> c = 133 \<or> c = 160 \<or> c = 5760 \<or>
     (8192 \<le> c \<and> c \<le> 8202) \<or> c = 8232 \<or> c = 8233 \<or> c = 8239 \<or> c = 8287 \<or> c = 12288"

text \<open>\<open>s.strip()\<close>: whitespace removed at both ends.\<close>

definition strip :: "str \<Rightarrow> str" where
  "strip s = rev (dropWhile is_space (rev (dropWhile is_space s)))"

text \<open>
  \<open>s.split()\<close>: runs of whitespace separate the tokens, and no token is empty.
\<close>

function split :: "str \<Rightarrow> str list" where
  "split [] = []"
| "split (c # cs) =
     (if is_space c then split cs
      else takeWhile (\<lambda>x. \<not> is_space x) (c # cs) # split (dropWhile (\<lambda>x. \<not> is_space x) cs))"
  by pat_completeness auto
termination
  by (relation "measure length") (auto simp: le_imp_less_Suc length_dropWhile_le)

text \<open>
  \<open>str.lower\<close> on ASCII text. On other text the lower-casing is that of the Unicode
  tables of the interpreter, which the parser takes as its parameter \<open>lower\<close>.
\<close>

definition ascii_lower :: "str \<Rightarrow> str" where
  "ascii_lower s = map (\<lambda>c. if 65 \<le> c \<and> c \<le> 90 then c + 32 else c) s"

section \<open>The command pattern\<close>

text \<open>
  \<open>COMMAND_PATTERN = re.compile(r"^/(come|follow|mine|hello)(?:\s|$)", re.IGNORECASE)\<close>.
  Under \<open>IGNORECASE\<close> a lower-case ASCII letter of the pattern matches itself, its upper-case
  letter and, for \<open>i\<close>, \<open>s\<close> and \<open>k\<close>, the non-ASCII letters U+0130, U+0131, U+017F, U+212A.
\<close>

definition ignorecase_class :: "nat \<Rightarrow> nat list" where
  "ignorecase_class p =
     (if 97 \<le> p \<and> p \<le> 122 then
        [p, p - 32] @ (if p = 105 then [304, 305] else if p = 115 then [383]
                       else if p = 107 then [8490] else [])
      else [p])"

text \<open>Matching a literal at the start of the subject; the result is the unmatched rest.\<close>

fun match_literal :: "str \<Rightarrow> str \<Rightarrow> str option" where
  "match_literal [] s = Some s"
| "match_literal (p # ps) [] = None"
| "match_literal (p # ps) (c # cs) =
     (if c \<in> set (ignorecase_class p) then match_literal ps cs else None)"

definition VERBS :: "str list" where
  "VERBS = [lit ''come'', lit ''follow'', lit ''mine'', lit ''hello'']"

text \<open>
  \<open>(?:\s|$)\<close>: a whitespace character, or the end of the subject (\<open>$\<close> also matches
  before a newline that ends the subject).
\<close>

definition boundary :: "str \<Rightarrow> bool" where
  "boundary r \<longleftrightarrow> (case r of [] \<Rightarrow> True | d # ds \<Rightarrow> is_space d \<or> (d = 10 \<and> ds = []))"

text \<open>\<open>COMMAND_PATTERN.match(s)\<close> is not \<open>None\<close>.\<close>

definition COMMAND_PATTERN_match :: "str \<Rightarrow> bool" where
  "COMMAND_PATTERN_match s =
     (case match_literal (lit ''/'') s of
        None \<Rightarrow> False
      | Some r \<Rightarrow>
          list_ex (\<lambda>v. case match_literal v r of None \<Rightarrow> False | Some r' \<Rightarrow> boundary r') VERBS)"

section \<open>Command parsing\<close>

record command =
  name :: str
  args :: "str list"

text \<open>
  \<open>parse_private_command\<close>. \<open>msg.strip()[1:]\<close> of an empty text is the empty text, as
  \<open>tl []\<close> is.
\<close>

definition parse_private_command :: "(str \<Rightarrow> str) \<Rightarrow> str \<Rightarrow> command option" where
  "parse_private_command lower msg =
     (if msg = [] then None
      else if \<not> COMMAND_PATTERN_match (strip msg) then None
      else
        let parts = split (tl (strip msg)) in
        if parts = [] then None
        else Some \<lparr>name = lower (hd parts),
                   args = (if length parts > 1 then tl parts else [])\<rparr>)"

section \<open>JSON values and payloads\<close>

text \<open>
  The values that \<open>json.dumps\<close> writes and \<open>json.loads\<close> returns. A Python \<open>dict\<close> keeps
  its keys in insertion order, so an object is an association list; \<open>None\<close> is \<open>JNull\<close>.
  Floats are carried through unchanged (no arithmetic is done on them).
\<close>

datatype json =
    JNull
  | JBool bool
  | JInt int
  | JFloat real
  | JStr str
  | JArr "json list"
  | JObj "(str \<times> json) list"

type_synonym payload = "(str \<times> json) list"

definition PROTOCOL_VERSION :: int where
  "PROTOCOL_VERSION = 1"

definition STATE_INTERVAL_MS :: real where
  "STATE_INTERVAL_MS = 125"

text \<open>\<open>d.get(k)\<close>: the value under \<open>k\<close>, or \<open>None\<close>. \<open>d.get(k, default)\<close> likewise.\<close>

definition get :: "payload \<Rightarrow> str \<Rightarrow> json" where
  "get d k = (case map_of d k of None \<Rightarrow> JNull | Some v \<Rightarrow> v)"

definition get_default :: "payload \<Rightarrow> str \<Rightarrow> json \<Rightarrow> json" where
  "get_default d k dflt = (case map_of d k of None \<Rightarrow> dflt | Some v \<Rightarrow> v)"

text \<open>\<open>sep.join(xs)\<close>.\<close>

fun join :: "str \<Rightarrow> str list \<Rightarrow> str" where
  "join sep [] = []"
| "join sep [x] = x"
| "join sep (x # y # ys) = x @ sep @ join sep (y # ys)"

section \<open>The host\<close>

text \<open>
  What one call of a Minescript accessor does: it raises, it returns nothing
  (\<open>None\<close>), or it returns a value.
\<close>

datatype 'a probe = Raises | Absent | Present 'a

text \<open>
  The accessors the bridge reads: the position of \<open>minescript.player()\<close>, the pair
  returned by \<open>minescript.player_orientation()\<close>, and the block position of
  \<open>minescript.player_get_targeted_block(max_distance=48.0)\<close>.
\<close>

record host =
  player :: "(real \<times> real \<times> real) probe"
  player_orientation :: "(real \<times> real) probe"
  player_get_targeted_block :: "(int \<times> int \<times> int) probe"

text \<open>The dictionary \<open>{"x", "y", "z", "yaw", "pitch"}\<close> of \<open>get_player_state\<close>.\<close>

record player_state =
  st_x :: real
  st_y :: real
  st_z :: real
  st_yaw :: real
  st_pitch :: real

definition get_player_state :: "host \<Rightarrow> player_state option" where
  "get_player_state h =
     (case player h of
        Present (px, py, pz) \<Rightarrow>
          (case player_orientation h of
             Present (yw, pt) \<Rightarrow>
               Some \<lparr>st_x = px, st_y = py, st_z = pz, st_yaw = yw, st_pitch = pt\<rparr>
           | _ \<Rightarrow> None)
      | _ \<Rightarrow> None)"

definition get_crosshair_block :: "host \<Rightarrow> payload option" where
  "get_crosshair_block h =
     (case player_get_targeted_block h of
        Present (bx, by, bz) \<Rightarrow>
          Some [(lit ''x'', JInt bx), (lit ''y'', JInt by), (lit ''z'', JInt bz)]
      | _ \<Rightarrow> None)"

text \<open>
  \<open>build_state_payload\<close>. \<open>if looking:\<close> holds for a dictionary that is not empty.
\<close>

definition build_state_payload :: "host \<Rightarrow> payload option" where
  "build_state_payload h =
     (case get_player_state h of
        None \<Rightarrow> None
      | Some st \<Rightarrow>
          let looking = get_crosshair_block h;
              payload =
                [(lit ''type'', JStr (lit ''state'')),
                 (lit ''v'', JInt PROTOCOL_VERSION),
                 (lit ''position'',
                    JObj [(lit ''x'', JFloat (st_x st)), (lit ''y'', JFloat (st_y st)),
                          (lit ''z'', JFloat (st_z st))]),
                 (lit ''rotation'',
                    JObj [(lit ''yaw'', JFloat (st_yaw st)), (lit ''pitch'', JFloat (st_pitch st))])]
          in Some (case looking of
                     None \<Rightarrow> payload
                   | Some b \<Rightarrow>
                       if b = [] then payload
                       else AList.update (lit ''lookingAt'') (JObj b) payload))"

text \<open>
  Modelled from the spec: the receiving side is not part of this program. A conforming
  receiver reads \<open>lookingAt?:{x,y,z:<int>}\<close> from a State message: three integers, or
  nothing when the field is not there.
\<close>

definition receiver_lookingAt :: "payload \<Rightarrow> (int \<times> int \<times> int) option" where
  "receiver_lookingAt m =
     (case map_of m (lit ''lookingAt'') of
        Some (JObj b) \<Rightarrow>
          (case (map_of b (lit ''x''), map_of b (lit ''y''), map_of b (lit ''z'')) of
             (Some (JInt bx), Some (JInt by), Some (JInt bz)) \<Rightarrow> Some (bx, by, bz)
           | _ \<Rightarrow> None)
      | _ \<Rightarrow> None)"

section \<open>The state of the bridge\<close>

text \<open>A line given to \<open>echo\<close> or \<open>log\<close>. The text of an exception is not modelled.\<close>

datatype diag =
    Text str
  | Connect_error
  | Send_failed
  | Remote_error json json

datatype thread = Unstarted | Alive | Finished

text \<open>
  The fields of \<open>WSClient\<close>, the local \<open>backoff\<close> of \<open>_async_main\<close>, the local
  \<open>last_state_ms\<close> of \<open>main\<close>, and what the program has done so far: the arguments of
  \<open>asyncio.sleep\<close>, for every connection the frames given to \<open>ws.send\<close>, and the lines given
  to \<open>echo\<close>, \<open>log\<close> and \<open>minescript.chat\<close>.
\<close>

record bridge =
  url :: str
  secret :: str
  tx_queue :: "payload list"
  thread :: "thread option"
  stop_evt :: bool
  connected :: bool
  backoff :: real
  last_state_ms :: real
  slept :: "real list"
  wire :: "payload list list"
  echoed :: "diag list"
  logged :: "diag list"
  chatted :: "str list"

text \<open>\<open>WSClient(url, secret)\<close>, before anything has run.\<close>

definition WSClient :: "str \<Rightarrow> str \<Rightarrow> bridge" where
  "WSClient u s =
     \<lparr>url = u, secret = s, tx_queue = [], thread = None, stop_evt = False,
      connected = False, backoff = 1 / 2, last_state_ms = 0, slept = [], wire = [],
      echoed = [], logged = [], chatted = []\<rparr>"

section \<open>The transport client\<close>

datatype exn = RuntimeError

text \<open>The stop sentinel \<open>{"_type": "STOP"}\<close>.\<close>

definition STOP :: payload where
  "STOP = [(lit ''_type'', JStr (lit ''STOP''))]"

text \<open>
  \<open>send\<close>: \<open>put_nowait\<close> on a queue without a bound never raises \<open>Full\<close>, so the item is
  always appended.
\<close>

definition send :: "payload \<Rightarrow> bridge \<Rightarrow> bridge" where
  "send p c = c\<lparr>tx_queue := tx_queue c @ [p]\<rparr>"

definition is_connected :: "bridge \<Rightarrow> bool" where
  "is_connected c = connected c"

text \<open>
  \<open>start\<close>; \<open>websockets\<close> tells whether the import of the package succeeded. The new
  thread is started at once.
\<close>

definition start :: "bool \<Rightarrow> bridge \<Rightarrow> bridge" where
  "start websockets c =
     (if \<not> websockets then
        c\<lparr>echoed := echoed c @ [Text (lit ''[PrivateBridge] Missing dependency: pip install websockets'')]\<rparr>
      else if thread c = Some Alive then c
      else c\<lparr>stop_evt := False, thread := Some Alive\<rparr>)"

text \<open>
  The first two statements of \<open>stop\<close>, which the lifecycle thread can observe: the event is
  set and the sentinel enqueued.
\<close>

definition stop_signal :: "bridge \<Rightarrow> bridge" where
  "stop_signal c = send STOP (c\<lparr>stop_evt := True\<rparr>)"

text \<open>
  \<open>stop\<close>. \<open>join\<close> raises \<open>RuntimeError\<close> for a thread that was never started; otherwise it
  returns, after at most two seconds, whether or not the thread has ended.
\<close>

definition stop :: "bridge \<Rightarrow> exn + bridge" where
  "stop c =
     (let c1 = stop_signal c in
      if thread c1 = Some Unstarted then Inl RuntimeError
      else Inr (c1\<lparr>thread := None, connected := False\<rparr>))"

text \<open>What another thread calls while the lifecycle thread runs.\<close>

datatype caller = Calls_send payload | Calls_stop

fun other_thread :: "caller \<Rightarrow> bridge \<Rightarrow> bridge" where
  "other_thread (Calls_send p) c = send p c"
| "other_thread Calls_stop c = stop_signal c"

text \<open>The Hello message.\<close>

definition hello :: "str \<Rightarrow> payload" where
  "hello sec =
     (let h = [(lit ''type'', JStr (lit ''hello'')), (lit ''v'', JInt PROTOCOL_VERSION)]
      in if sec \<noteq> [] then AList.update (lit ''secret'') (JStr sec) h else h)"

text \<open>\<open>ws.send\<close> is called with a frame on the connection that is open.\<close>

definition wrote :: "payload \<Rightarrow> bridge \<Rightarrow> bridge" where
  "wrote item c = c\<lparr>wire := butlast (wire c) @ [last (wire c) @ [item]]\<rparr>"

text \<open>
  The sender loop. One tick is one pass through the loop: the calls other threads made
  since the last pass, and whether \<open>ws.send\<close> succeeds if this pass writes. A pass that
  finds the queue empty is the \<open>Empty\<close> after 0.25 seconds. When the ticks are used up the
  loop is still running.
\<close>

datatype sender_exit = Stop_seen | Sentinel | Send_error | Streaming

type_synonym tick = "caller list \<times> bool"

fun sender_loop :: "tick list \<Rightarrow> bridge \<Rightarrow> sender_exit \<times> bridge" where
  "sender_loop [] c = (Streaming, c)"
| "sender_loop ((calls, ok) # ts) c =
     (let c1 = fold other_thread calls c in
      if stop_evt c1 then (Stop_seen, c1)
      else
        (case tx_queue c1 of
           [] \<Rightarrow> sender_loop ts c1
         | item # q \<Rightarrow>
             let c2 = c1\<lparr>tx_queue := q\<rparr> in
             if get item (lit ''_type'') = JStr (lit ''STOP'') then (Sentinel, c2)
             else if ok then sender_loop ts (wrote item c2)
             else (Send_error, (wrote item c2)\<lparr>logged := logged c2 @ [Send_failed]\<rparr>)))"

text \<open>
  \<open>_recv_loop\<close>, on the frames the receiver gets before it is cancelled; a frame is given
  by what \<open>json.loads\<close> makes of it, \<open>None\<close> when it raises. The result is the lines
  echoed. \<open>data.get\<close> on a value that is not a dictionary raises \<open>AttributeError\<close>, which
  the outer handler catches: the loop is over.
\<close>

fun recv_loop :: "json option list \<Rightarrow> diag list" where
  "recv_loop [] = []"
| "recv_loop (None # raws) = recv_loop raws"
| "recv_loop (Some (JObj d) # raws) =
     (let t = get d (lit ''type'') in
      if t = JStr (lit ''ack'') then recv_loop raws
      else if t = JStr (lit ''error'') then
        Remote_error (get d (lit ''code'')) (get_default d (lit ''message'') (JStr []))
          # recv_loop raws
      else recv_loop raws)"
| "recv_loop (Some _ # raws) = []"

text \<open>
  One connection attempt: \<open>websockets.connect\<close> raises, or it succeeds, and then: whether
  the write of Hello succeeds, the frames the receiver gets, the ticks of the sender.
\<close>

datatype attempt = Refused | Accepted bool "json option list" "tick list"

text \<open>
  The body of the \<open>try\<close> of \<open>_async_main\<close> with its handler. The result also tells whether
  the sender loop is still running.
\<close>

fun connection :: "attempt \<Rightarrow> bridge \<Rightarrow> bool \<times> bridge" where
  "connection Refused c =
     (False, if stop_evt c then c else c\<lparr>logged := logged c @ [Connect_error]\<rparr>)"
| "connection (Accepted hello_ok inbound ticks) c =
     (let c1 = c\<lparr>connected := True, backoff := 1 / 2,
                 wire := wire c @ [[hello (secret c)]]\<rparr> in
      if \<not> hello_ok then
        (False, if stop_evt c1 then c1 else c1\<lparr>logged := logged c1 @ [Connect_error]\<rparr>)
      else
        (case sender_loop ticks c1 of
           (ex, c2) \<Rightarrow> (ex = Streaming, c2\<lparr>echoed := echoed c2 @ recv_loop inbound\<rparr>)))"

text \<open>
  The outer loop of \<open>_async_main\<close>. One round is one pass: the calls other threads make
  while the connection is being opened, the attempt, and the calls made during the sleep.
\<close>

datatype run = Returned | Running

type_synonym round = "caller list \<times> attempt \<times> caller list"

fun rounds :: "round list \<Rightarrow> bridge \<Rightarrow> run \<times> bridge" where
  "rounds [] c = (if stop_evt c then Returned else Running, c)"
| "rounds ((before, att, asleep) # rs) c =
     (if stop_evt c then (Returned, c)
      else
        (case connection att (fold other_thread before c) of
           (True, c1) \<Rightarrow> (Running, c1)
         | (False, c1) \<Rightarrow>
             let c2 = c1\<lparr>connected := False\<rparr> in
             if stop_evt c2 then (Returned, c2)
             else
               rounds rs
                 (fold other_thread asleep
                    (c2\<lparr>slept := slept c2 @ [backoff c2],
                        backoff := min (backoff c2 * 2) 5\<rparr>))))"

definition async_main :: "round list \<Rightarrow> bridge \<Rightarrow> run \<times> bridge" where
  "async_main rs c = rounds rs (c\<lparr>backoff := 1 / 2\<rparr>)"

section \<open>The session driver\<close>

datatype event = World bool | Outgoing_chat_intercept "str option" | Other_event

text \<open>The periodic state push of one pass of the loop of \<open>main\<close>, at time \<open>now_ms\<close>.\<close>

definition state_push :: "real \<Rightarrow> host \<Rightarrow> bridge \<Rightarrow> bridge" where
  "state_push now_ms h c =
     (if now_ms - last_state_ms c \<ge> STATE_INTERVAL_MS \<and> is_connected c then
        let c1 = c\<lparr>last_state_ms := now_ms\<rparr> in
        (case build_state_payload h of
           None \<Rightarrow> c1
         | Some st \<Rightarrow> if st = [] then c1 else send st c1)
      else c)"

text \<open>
  The handling of an event; the result tells whether the loop is left. \<open>event.message or ""\<close>
  is the empty text when there is no message.
\<close>

fun on_event :: "(str \<Rightarrow> str) \<Rightarrow> event \<Rightarrow> bridge \<Rightarrow> bool \<times> bridge" where
  "on_event lower (World conn) c =
     (if \<not> conn then
        (True, c\<lparr>echoed := echoed c @ [Text (lit ''[PrivateBridge] world disconnected, stopping.'')]\<rparr>)
      else (False, c))"
| "on_event lower (Outgoing_chat_intercept message) c =
     (let msg = strip (case message of None \<Rightarrow> [] | Some m \<Rightarrow> m) in
      case parse_private_command lower msg of
        None \<Rightarrow> (False, c\<lparr>chatted := chatted c @ [msg]\<rparr>)
      | Some cmd \<Rightarrow>
          let payload = [(lit ''type'', JStr (lit ''command'')),
                         (lit ''v'', JInt PROTOCOL_VERSION),
                         (lit ''name'', JStr (name cmd))];
              payload = (if args cmd \<noteq> []
                         then AList.update (lit ''args'') (JArr (map JStr (args cmd))) payload
                         else payload);
              c1 = send payload c
          in (False,
              c1\<lparr>logged := logged c1 @
                   [Text (lit ''[PrivateBridge] '' @ name cmd @ lit '' '' @
                          (if args cmd \<noteq> [] then join (lit '' '') (args cmd) else []))]\<rparr>))"
| "on_event lower Other_event c = (False, c)"

text \<open>
  One pass of the loop: the time read, the host, the event got within the timeout (if
  any), and the liveness flag as the lifecycle thread has last written it.
\<close>

record pass =
  now_ms :: real
  sampled :: host
  got :: "event option"
  live :: bool

definition iteration :: "(str \<Rightarrow> str) \<Rightarrow> pass \<Rightarrow> bridge \<Rightarrow> bool \<times> bridge" where
  "iteration lower p c =
     (let c1 = state_push (now_ms p) (sampled p) (c\<lparr>connected := live p\<rparr>) in
      case got p of
        None \<Rightarrow> (False, c1)
      | Some e \<Rightarrow> on_event lower e c1)"

fun driver_loop :: "(str \<Rightarrow> str) \<Rightarrow> pass list \<Rightarrow> bridge \<Rightarrow> bridge" where
  "driver_loop lower [] c = c"
| "driver_loop lower (p # ps) c =
     (case iteration lower p c of
        (True, c1) \<Rightarrow> c1
      | (False, c1) \<Rightarrow> driver_loop lower ps c1)"

section \<open>Properties of the parser\<close>

lemma split_nonempty: "\<not> is_space c \<Longrightarrow> split (c # cs) \<noteq> []"
  by simp

lemma split_tokens: "t \<in> set (split s) \<Longrightarrow> t \<noteq> [] \<and> (\<forall>c \<in> set t. \<not> is_space c)"
proof (induction s arbitrary: t rule: split.induct)
  case 1
  then show ?case by simp
next
  case (2 c cs)
  show ?case
  proof (cases "is_space c")
    case True
    with 2 show ?thesis by simp
  next
    case False
    with "2.prems" have "t = takeWhile (\<lambda>x. \<not> is_space x) (c # cs) \<or>
        t \<in> set (split (dropWhile (\<lambda>x. \<not> is_space x) cs))"
      by simp
    then show ?thesis
    proof
      assume t: "t = takeWhile (\<lambda>x. \<not> is_space x) (c # cs)"
      have all: "\<forall>x \<in> set (takeWhile (\<lambda>x. \<not> is_space x) (c # cs)). \<not> is_space x"
        using set_takeWhileD [of _ "\<lambda>x. \<not> is_space x" "c # cs"] by blast
      have ne: "takeWhile (\<lambda>x. \<not> is_space x) (c # cs) \<noteq> []"
        using False by simp
      show ?thesis unfolding t using all ne by blast
    next
      assume "t \<in> set (split (dropWhile (\<lambda>x. \<not> is_space x) cs))"
      with "2.IH"(2) False show ?thesis by blast
    qed
  qed
qed

lemma concat_split: "concat (split s) = filter (\<lambda>c. \<not> is_space c) s"
proof (induction s rule: split.induct)
  case 1
  then show ?case by simp
next
  case (2 c cs)
  have "filter (\<lambda>c. \<not> is_space c) cs =
        takeWhile (\<lambda>x. \<not> is_space x) cs @ filter (\<lambda>c. \<not> is_space c) (dropWhile (\<lambda>x. \<not> is_space x) cs)"
    by (metis (mono_tags, lifting) filter_append filter_id_conv set_takeWhileD takeWhile_dropWhile_id)
  with 2 show ?case by simp
qed

lemma match_literal_head:
  "match_literal (p # ps) s = Some r \<Longrightarrow> \<exists>c cs. s = c # cs \<and> c \<in> set (ignorecase_class p)"
  by (cases s) (auto split: if_splits)

lemma verb_head_not_space:
  "v \<in> set VERBS \<Longrightarrow> match_literal v s = Some r \<Longrightarrow> \<exists>c cs. s = c # cs \<and> \<not> is_space c"
  by (auto simp: VERBS_def lit_def ignorecase_class_def is_space_def dest!: match_literal_head)

lemma COMMAND_PATTERN_match_shape:
  assumes "COMMAND_PATTERN_match s"
  shows "\<exists>c cs. s = 47 # c # cs \<and> \<not> is_space c"
proof -
  from assms obtain r where r: "match_literal (lit ''/'') s = Some r"
    and ex: "list_ex (\<lambda>v. case match_literal v r of None \<Rightarrow> False | Some r' \<Rightarrow> boundary r') VERBS"
    by (auto simp: COMMAND_PATTERN_match_def split: option.splits)
  from r have s: "s = 47 # r"
    by (cases s) (auto simp: lit_def ignorecase_class_def split: if_splits)
  from ex obtain v r' where "v \<in> set VERBS" "match_literal v r = Some r'"
    by (auto simp: list_ex_iff split: option.splits)
  then obtain c cs where "r = c # cs" "\<not> is_space c"
    using verb_head_not_space by blast
  with s show ?thesis by simp
qed

text \<open>
  Claim C1. A line that, once trimmed, matches the command pattern is parsed to a command:
  its verb is the first whitespace-separated token of the trimmed line without its slash,
  lower-cased, and its arguments are the remaining tokens, unchanged and in order.
\<close>

theorem parse_private_command_whitelisted:
  assumes "COMMAND_PATTERN_match (strip msg)"
  shows "split (tl (strip msg)) \<noteq> [] \<and>
         parse_private_command lower msg =
           Some \<lparr>name = lower (hd (split (tl (strip msg)))),
                 args = tl (split (tl (strip msg)))\<rparr>"
proof -
  from COMMAND_PATTERN_match_shape [OF assms]
  obtain c cs where s: "strip msg = 47 # c # cs" and c: "\<not> is_space c" by blast
  have ne: "msg \<noteq> []" using s by (auto simp: strip_def)
  have parts: "split (tl (strip msg)) \<noteq> []" using s c by simp
  then have "(if length (split (tl (strip msg))) > 1 then tl (split (tl (strip msg))) else [])
             = tl (split (tl (strip msg)))"
    by (cases "split (tl (strip msg))") (auto simp: Suc_lessI)
  with assms ne parts show ?thesis
    by (simp add: parse_private_command_def Let_def)
qed

theorem parse_private_command_whitelisted_witness:
  "COMMAND_PATTERN_match (strip (lit ''  /MiNe Stone  Ore '')) \<and>
   parse_private_command ascii_lower (lit ''  /MiNe Stone  Ore '') =
     Some \<lparr>name = lit ''mine'', args = [lit ''Stone'', lit ''Ore'']\<rparr>"
proof -
  have h: "COMMAND_PATTERN_match (strip (lit ''  /MiNe Stone  Ore ''))"
    by (simp add: COMMAND_PATTERN_match_def VERBS_def boundary_def ignorecase_class_def
        lit_def strip_def is_space_def)
  have sp: "split (tl (strip (lit ''  /MiNe Stone  Ore ''))) =
            [lit ''MiNe'', lit ''Stone'', lit ''Ore'']"
    by (simp add: lit_def strip_def is_space_def)
  have lo: "ascii_lower (lit ''MiNe'') = lit ''mine''"
    by (simp add: ascii_lower_def lit_def)
  from parse_private_command_whitelisted [OF h, of ascii_lower] h show ?thesis
    by (simp only: sp lo list.sel simp_thms)
qed

end
